theory Spec2Isabelle
  imports Complex_Main "HOL-Library.Sublist"
begin

section \<open>Tools and the collaborators the core imports\<close>

text \<open>
  A tool, as far as the permission engine and the query loop read it: its \<open>name\<close> and the
  answer of its \<open>isReadOnly()\<close> method.
\<close>

record Tool =
  name :: string
  isReadOnly :: bool

text \<open>
  The permission engine imports a few things from modules outside the files at hand:
  the \<open>BashTool\<close> singleton and its \<open>renderToolUseMessage\<close>, \<open>splitCommand\<close>,
  \<open>getCwd()\<close> and the \<open>PRODUCT_NAME\<close> constant. They are taken as parameters, bundled
  in one record. The test \<open>tool === BashTool\<close> is modelled by equality with \<open>BashTool\<close>.
\<close>

record Externals =
  BashTool :: Tool
  renderToolUseMessage :: "string \<Rightarrow> string"
  splitCommand :: "string \<Rightarrow> string list"
  getCwd :: string
  PRODUCT_NAME :: string

section \<open>Permission engine (permissions.ts)\<close>

definition SAFE_COMMANDS :: "string list" where
  "SAFE_COMMANDS =
     [''git status'', ''git diff'', ''git log'', ''git branch'',
      ''pwd'', ''tree'', ''date'', ''which'']"

text \<open>
  \<open>getPermissionKey(tool, {command}, prefix)\<close>. The test \<open>if (prefix)\<close> is JavaScript
  truthiness: \<open>null\<close> and the empty string both take the second branch.
\<close>

definition getPermissionKey :: "Externals \<Rightarrow> Tool \<Rightarrow> string \<Rightarrow> string option \<Rightarrow> string" where
  "getPermissionKey X tool command pfx =
     (if tool = BashTool X then
        (case pfx of
           Some p \<Rightarrow>
             (if p \<noteq> [] then name (BashTool X) @ ''('' @ p @ '':*)''
              else name (BashTool X) @ ''('' @ renderToolUseMessage X command @ '')'')
         | None \<Rightarrow> name (BashTool X) @ ''('' @ renderToolUseMessage X command @ '')'')
      else name tool)"

definition bashToolCommandHasExactMatchPermission ::
  "Externals \<Rightarrow> Tool \<Rightarrow> string \<Rightarrow> string list \<Rightarrow> bool" where
  "bashToolCommandHasExactMatchPermission X tool command allowedTools =
     (if List.member SAFE_COMMANDS command then True
      else if List.member allowedTools (getPermissionKey X tool command None) then True
      else if List.member allowedTools (getPermissionKey X tool command (Some command)) then True
      else False)"

definition bashToolCommandHasPermission ::
  "Externals \<Rightarrow> Tool \<Rightarrow> string \<Rightarrow> string option \<Rightarrow> string list \<Rightarrow> bool" where
  "bashToolCommandHasPermission X tool command pfx allowedTools =
     (if bashToolCommandHasExactMatchPermission X tool command allowedTools then True
      else List.member allowedTools (getPermissionKey X tool command pfx))"

text \<open>
  What the command-prefix classifier resolves to, as \<open>bashToolHasPermission\<close> reads it:
  a top-level \<open>commandPrefix\<close> (possibly \<open>null\<close>), the \<open>commandInjectionDetected\<close> flag,
  and the \<open>subcommandPrefixes\<close> map from sub-command to its own prefix result. The
  classifier as a whole answers \<open>None\<close> for the \<open>null\<close> it returns when the lookup failed.
\<close>

record CommandPrefixResult =
  commandPrefix :: "string option"
  commandInjectionDetected :: bool

record CommandSubcommandPrefixResult = CommandPrefixResult +
  subcommandPrefixes :: "string \<rightharpoonup> CommandPrefixResult"

datatype PermissionResult = Granted | Denied string

datatype error = AbortError

definition permissionRequestMessage :: "Externals \<Rightarrow> Tool \<Rightarrow> string" where
  "permissionRequestMessage X tool =
     PRODUCT_NAME X @ '' requested permissions to use '' @ name tool
       @ '', but you haven't granted it yet.''"

text \<open>The filter applied to \<open>splitCommand(command)\<close>: drop every \<open>cd <cwd>\<close>.\<close>

definition subCommandsOf :: "Externals \<Rightarrow> string \<Rightarrow> string list" where
  "subCommandsOf X command =
     filter (\<lambda>c. if c = ''cd '' @ getCwd X then False else True) (splitCommand X command)"

text \<open>The callback of \<open>subCommands.every(...)\<close>.\<close>

definition subCommandHasPermission ::
  "Externals \<Rightarrow> Tool \<Rightarrow> string list \<Rightarrow> CommandSubcommandPrefixResult \<Rightarrow> string \<Rightarrow> bool" where
  "subCommandHasPermission X tool allowedTools commandSubcommandPrefix subCommand =
     (case subcommandPrefixes commandSubcommandPrefix subCommand of
        None \<Rightarrow> False
      | Some prefixResult \<Rightarrow>
          (if commandInjectionDetected prefixResult then False
           else bashToolCommandHasPermission X tool subCommand
                  (commandPrefix prefixResult) allowedTools))"

text \<open>
  \<open>bashToolHasPermission\<close>. The classifier \<open>getCommandSubcommandPrefixFn\<close> is a parameter of
  the source function too; \<open>aborted\<close> is \<open>context.abortController.signal.aborted\<close> as read
  right after the classifier call resolves. A thrown \<open>AbortError\<close> is the \<open>Inl\<close> result.
\<close>

definition bashToolHasPermission ::
  "Externals \<Rightarrow> Tool \<Rightarrow> string \<Rightarrow> bool \<Rightarrow> string list
     \<Rightarrow> (string \<Rightarrow> CommandSubcommandPrefixResult option) \<Rightarrow> error + PermissionResult" where
  "bashToolHasPermission X tool command aborted allowedTools getCommandSubcommandPrefixFn =
     (if bashToolCommandHasExactMatchPermission X tool command allowedTools then Inr Granted
      else
        let subCommands = subCommandsOf X command;
            commandSubcommandPrefix = getCommandSubcommandPrefixFn command
        in
          if aborted then Inl AbortError
          else
            (case commandSubcommandPrefix of
               None \<Rightarrow> Inr (Denied (permissionRequestMessage X tool))
             | Some r \<Rightarrow>
                 if commandInjectionDetected r then
                   (if bashToolCommandHasExactMatchPermission X tool command allowedTools
                    then Inr Granted
                    else Inr (Denied (permissionRequestMessage X tool)))
                 else if length subCommands < 2 then
                   (if bashToolCommandHasPermission X tool command (commandPrefix r) allowedTools
                    then Inr Granted
                    else Inr (Denied (permissionRequestMessage X tool)))
                 else if list_all (subCommandHasPermission X tool allowedTools r) subCommands
                   then Inr Granted
                 else Inr (Denied (permissionRequestMessage X tool))))"

section \<open>Message model (query.ts, utils/messages.tsx)\<close>

text \<open>
  Content blocks. A tool-use block carries \<open>id\<close>, \<open>name\<close> and \<open>input\<close>; a tool-result
  block carries \<open>tool_use_id\<close>, \<open>content\<close> and \<open>is_error\<close> (absent reads as false), and
  has no \<open>id\<close> property.
\<close>

type_synonym UUID = string

record ToolUseBlock =
  toolUseId :: string
  toolName :: string
  toolInput :: string

datatype ContentBlock =
    TextBlock string
  | ImageBlock string
  | ThinkingBlock string
  | RedactedThinkingBlock string
  | ToolUse ToolUseBlock
  | ToolResult string string bool

text \<open>The content of a user message is a plain string or an array of blocks.\<close>

datatype Content = Str string | Blocks "ContentBlock list"

record UserMessage =
  userContent :: Content
  userUuid :: UUID
  toolUseResult :: "string option"

text \<open>
  An assistant message, with the fields of the wire message it wraps (\<open>id\<close>, \<open>model\<close>,
  \<open>content\<close>) side by side with its own. \<open>costUSD\<close> is a rational here, a float in the
  source. An absent \<open>isApiErrorMessage\<close> reads as false.
\<close>

record AssistantMessage =
  costUSD :: rat
  durationMs :: int
  assistantContent :: "ContentBlock list"
  messageId :: string
  model :: string
  assistantUuid :: UUID
  isApiErrorMessage :: bool

record ProgressMessage =
  progressContent :: AssistantMessage
  toolUseID :: string
  siblingToolUseIDs :: "string list"
  progressUuid :: UUID

datatype Message = User UserMessage | Assistant AssistantMessage | Progress ProgressMessage


definition NO_CONTENT_MESSAGE :: string where
  "NO_CONTENT_MESSAGE = ''(no content)''"

definition CANCEL_MESSAGE :: string where
  "CANCEL_MESSAGE = ''The user doesn't want to take this action right now. STOP what you are doing and wait for the user to tell you how to proceed.''"

text \<open>
  The factories draw fresh identifiers with \<open>randomUUID()\<close>; the drawn values are
  arguments here (\<open>u\<close> for the message, \<open>mid\<close> for the wrapped wire message).
\<close>

definition baseCreateAssistantMessage ::
  "UUID \<Rightarrow> string \<Rightarrow> ContentBlock list \<Rightarrow> bool \<Rightarrow> AssistantMessage" where
  "baseCreateAssistantMessage u mid content extraIsApiErrorMessage =
     \<lparr>costUSD = 0, durationMs = 0, assistantContent = content, messageId = mid,
      model = ''<synthetic>'', assistantUuid = u,
      isApiErrorMessage = extraIsApiErrorMessage\<rparr>"

definition createAssistantMessage :: "UUID \<Rightarrow> string \<Rightarrow> string \<Rightarrow> AssistantMessage" where
  "createAssistantMessage u mid content =
     baseCreateAssistantMessage u mid
       [TextBlock (if content = [] then NO_CONTENT_MESSAGE else content)] False"

definition createAssistantAPIErrorMessage :: "UUID \<Rightarrow> string \<Rightarrow> string \<Rightarrow> AssistantMessage" where
  "createAssistantAPIErrorMessage u mid content =
     baseCreateAssistantMessage u mid
       [TextBlock (if content = [] then NO_CONTENT_MESSAGE else content)] True"

definition createUserMessage :: "UUID \<Rightarrow> Content \<Rightarrow> string option \<Rightarrow> UserMessage" where
  "createUserMessage u content fullToolUseResult =
     \<lparr>userContent = content, userUuid = u, toolUseResult = fullToolUseResult\<rparr>"

definition createToolResultStopMessage :: "string \<Rightarrow> ContentBlock" where
  "createToolResultStopMessage toolUseID' = ToolResult toolUseID' CANCEL_MESSAGE True"

section \<open>Display normalization (normalizeMessages)\<close>

text \<open>
  The \<open>map\<close> over the content blocks of one assistant message. Every derived message
  draws a fresh \<open>uuid\<close>: \<open>randomUUID\<close> is a supply indexed by the number of draws made so
  far. The derived object is built from scratch, so it has no \<open>isApiErrorMessage\<close>.
\<close>

fun splitAssistantMessage ::
  "(nat \<Rightarrow> UUID) \<Rightarrow> nat \<Rightarrow> AssistantMessage \<Rightarrow> ContentBlock list \<Rightarrow> Message list" where
  "splitAssistantMessage randomUUID k message [] = []"
| "splitAssistantMessage randomUUID k message (b # bs) =
     Assistant
       \<lparr>costUSD = costUSD message / of_nat (length (assistantContent message)),
        durationMs = durationMs message,
        assistantContent = [b],
        messageId = messageId message,
        model = model message,
        assistantUuid = randomUUID k,
        isApiErrorMessage = False\<rparr>
     # splitAssistantMessage randomUUID (Suc k) message bs"

text \<open>
  \<open>normalizeMessages\<close>: a \<open>flatMap\<close>. Progress messages and messages with string content
  pass through; a user message with block content is returned once per block, unsplit
  (\<open>return message\<close>); an assistant message is split.
\<close>

fun normalizeMessages :: "(nat \<Rightarrow> UUID) \<Rightarrow> nat \<Rightarrow> Message list \<Rightarrow> Message list" where
  "normalizeMessages randomUUID k [] = []"
| "normalizeMessages randomUUID k (Progress m # ms) =
     Progress m # normalizeMessages randomUUID k ms"
| "normalizeMessages randomUUID k (User m # ms) =
     (case userContent m of
        Str s \<Rightarrow> [User m]
      | Blocks bs \<Rightarrow> map (\<lambda>b. User m) bs)
     @ normalizeMessages randomUUID k ms"
| "normalizeMessages randomUUID k (Assistant m # ms) =
     splitAssistantMessage randomUUID k m (assistantContent m)
     @ normalizeMessages randomUUID (k + length (assistantContent m)) ms"

fun assistantMessagesOf :: "Message list \<Rightarrow> AssistantMessage list" where
  "assistantMessagesOf [] = []"
| "assistantMessagesOf (Assistant m # ms) = m # assistantMessagesOf ms"
| "assistantMessagesOf (m # ms) = assistantMessagesOf ms"

section \<open>Wire normalization (normalizeMessagesForAPI)\<close>

text \<open>
  The test \<open>Array.isArray(content) && content[0]?.type === 'tool_result'\<close>.
\<close>

fun isToolResultContent :: "Content \<Rightarrow> bool" where
  "isToolResultContent (Blocks (ToolResult i c e # bs)) = True"
| "isToolResultContent c = False"















section \<open>Model-call wrapper (services/claude.ts)\<close>

text \<open>
  An \<open>APIError\<close> as the retry classifier reads it: its \<open>message\<close>, its \<open>status\<close> (absent
  for connection failures), its \<open>headers\<close>, and whether it is an instance of
  \<open>APIConnectionError\<close>. What a failed attempt throws is such an error, another \<open>Error\<close>
  with a message, or a value that is no \<open>Error\<close> at all.
\<close>

record APIError =
  errorMessage :: string
  status :: "int option"
  headers :: "(string \<rightharpoonup> string) option"
  isAPIConnectionError :: bool

datatype Thrown = ThrownAPIError APIError | ThrownError string | ThrownValue

definition API_ERROR_MESSAGE_PREFIX :: string where
  "API_ERROR_MESSAGE_PREFIX = ''API Error''"

definition PROMPT_TOO_LONG_ERROR_MESSAGE :: string where
  "PROMPT_TOO_LONG_ERROR_MESSAGE = ''Prompt is too long''"

definition CREDIT_BALANCE_TOO_LOW_ERROR_MESSAGE :: string where
  "CREDIT_BALANCE_TOO_LOW_ERROR_MESSAGE = ''Credit balance is too low''"

text \<open>The character between the two halves is the middle dot, code unit \<open>0xB7\<close>.\<close>

definition INVALID_API_KEY_ERROR_MESSAGE :: string where
  "INVALID_API_KEY_ERROR_MESSAGE = ''Invalid API key '' @ [CHR 0xB7] @ '' Please run /login''"

text \<open>
  \<open>String.prototype.includes\<close> and \<open>toLowerCase\<close>, the latter on the letters \<open>A\<close> to \<open>Z\<close>
  (strings here are sequences of 8-bit characters),
  as \<open>stringIncludes\<close> and \<open>toLowerCase\<close>.
\<close>

definition stringIncludes :: "string \<Rightarrow> string \<Rightarrow> bool" where
  "stringIncludes s t = sublist t s"

definition toLowerCaseChar :: "char \<Rightarrow> char" where
  "toLowerCaseChar c =
     (case map_of (zip ''ABCDEFGHIJKLMNOPQRSTUVWXYZ'' ''abcdefghijklmnopqrstuvwxyz'') c of
        None \<Rightarrow> c
      | Some l \<Rightarrow> l)"

definition toLowerCase :: "string \<Rightarrow> string" where
  "toLowerCase s = map toLowerCaseChar s"

definition OVERLOADED_ERROR_MARKER :: string where
  "OVERLOADED_ERROR_MARKER =
     [CHR 0x22] @ ''type'' @ [CHR 0x22] @ '':'' @ [CHR 0x22] @ ''overloaded_error'' @ [CHR 0x22]"

text \<open>\<open>error.headers?.[key]\<close>.\<close>

definition header :: "APIError \<Rightarrow> string \<Rightarrow> string option" where
  "header e key = (case headers e of None \<Rightarrow> None | Some h \<Rightarrow> h key)"

text \<open>
  \<open>shouldRetry\<close>. \<open>USER_TYPE\<close> is \<open>process.env.USER_TYPE\<close>. The test \<open>!error.status\<close> holds
  for an absent status and for \<open>0\<close>.
\<close>

definition shouldRetry :: "string option \<Rightarrow> APIError \<Rightarrow> bool" where
  "shouldRetry USER_TYPE e =
     (if stringIncludes (errorMessage e) OVERLOADED_ERROR_MARKER then USER_TYPE = Some ''SWE_BENCH''
      else if header e ''x-should-retry'' = Some ''true'' then True
      else if header e ''x-should-retry'' = Some ''false'' then False
      else if isAPIConnectionError e then True
      else
        (case status e of
           None \<Rightarrow> False
         | Some s \<Rightarrow>
             if s = 0 then False
             else if s = 408 then True
             else if s = 409 then True
             else if s = 429 then True
             else if s \<ge> 500 then True
             else False))"

definition MAX_RETRIES :: "string option \<Rightarrow> nat" where
  "MAX_RETRIES USER_TYPE = (if USER_TYPE = Some ''SWE_BENCH'' then 100 else 10)"

text \<open>
  The loop of \<open>withRetry\<close>, from a given \<open>attempt\<close> on. \<open>operation attempt\<close> is the outcome of
  that attempt: \<open>Inr\<close> the value it resolves to, \<open>Inl\<close> what it throws. The waiting between
  attempts has no part in the result and is left out. \<open>lastError\<close> is what the final
  \<open>throw lastError\<close> would throw (\<open>undefined\<close>, a non-\<open>Error\<close> value, when nothing was caught).
\<close>

function withRetryFrom ::
  "string option \<Rightarrow> (nat \<Rightarrow> Thrown + 'a) \<Rightarrow> nat \<Rightarrow> nat \<Rightarrow> Thrown option \<Rightarrow> Thrown + 'a" where
  "withRetryFrom USER_TYPE operation maxRetries attempt lastError =
     (if attempt \<le> maxRetries + 1 then
        (case operation attempt of
           Inr v \<Rightarrow> Inr v
         | Inl e \<Rightarrow>
             (case e of
                ThrownAPIError apiError \<Rightarrow>
                  if attempt > maxRetries \<or> \<not> shouldRetry USER_TYPE apiError then Inl e
                  else withRetryFrom USER_TYPE operation maxRetries (attempt + 1) (Some e)
              | ThrownError m \<Rightarrow> Inl e
              | ThrownValue \<Rightarrow> Inl e))
      else (case lastError of None \<Rightarrow> Inl ThrownValue | Some e \<Rightarrow> Inl e))"
  by pat_completeness auto
termination
  by (relation "measure (\<lambda>(USER_TYPE, operation, maxRetries, attempt, lastError).
        maxRetries + 2 - attempt)") auto

definition withRetry ::
  "string option \<Rightarrow> (nat \<Rightarrow> Thrown + 'a) \<Rightarrow> nat option \<Rightarrow> Thrown + 'a" where
  "withRetry USER_TYPE operation optionsMaxRetries =
     withRetryFrom USER_TYPE operation
       (case optionsMaxRetries of None \<Rightarrow> MAX_RETRIES USER_TYPE | Some n \<Rightarrow> n) 1 None"

definition getAssistantMessageFromError :: "UUID \<Rightarrow> string \<Rightarrow> Thrown \<Rightarrow> AssistantMessage" where
  "getAssistantMessageFromError u mid error =
     (case (case error of ThrownAPIError e \<Rightarrow> Some (errorMessage e)
                        | ThrownError m \<Rightarrow> Some m
                        | ThrownValue \<Rightarrow> None) of
        Some m \<Rightarrow>
          if stringIncludes m ''prompt is too long''
            then createAssistantAPIErrorMessage u mid PROMPT_TOO_LONG_ERROR_MESSAGE
          else if stringIncludes m ''Your credit balance is too low''
            then createAssistantAPIErrorMessage u mid CREDIT_BALANCE_TOO_LOW_ERROR_MESSAGE
          else if stringIncludes (toLowerCase m) ''x-api-key''
            then createAssistantAPIErrorMessage u mid INVALID_API_KEY_ERROR_MESSAGE
          else createAssistantAPIErrorMessage u mid (API_ERROR_MESSAGE_PREFIX @ '': '' @ m)
      | None \<Rightarrow> createAssistantAPIErrorMessage u mid API_ERROR_MESSAGE_PREFIX)"

text \<open>
  \<open>queryOpenAI\<close>, from its \<open>try\<close> on: the model call under \<open>withRetry\<close> with the default
  retry count, the \<open>catch\<close> turning whatever was thrown into a message, and the message
  built from the response otherwise (\<open>fromResponse\<close>, the cost and usage bookkeeping
  after the \<open>try\<close>).
\<close>

definition queryOpenAI ::
  "string option \<Rightarrow> (nat \<Rightarrow> Thrown + 'r) \<Rightarrow> ('r \<Rightarrow> AssistantMessage) \<Rightarrow> UUID \<Rightarrow> string
     \<Rightarrow> AssistantMessage" where
  "queryOpenAI USER_TYPE operation fromResponse u mid =
     (case withRetry USER_TYPE operation None of
        Inl error \<Rightarrow> getAssistantMessageFromError u mid error
      | Inr response \<Rightarrow> fromResponse response)"

section \<open>Query loop: dispatching one batch of tool uses (query.ts)\<close>

definition MAX_TOOL_USE_CONCURRENCY :: nat where
  "MAX_TOOL_USE_CONCURRENCY = 10"

text \<open>\<open>content.filter(_ => _.type === 'tool_use')\<close>.\<close>

fun toolUsesOf :: "ContentBlock list \<Rightarrow> ToolUseBlock list" where
  "toolUsesOf [] = []"
| "toolUsesOf (ToolUse tu # bs) = tu # toolUsesOf bs"
| "toolUsesOf (b # bs) = toolUsesOf bs"

text \<open>
  The test that chooses the path:
  \<open>toolUseMessages.every(msg => tools.find(t => t.name === msg.name)?.isReadOnly())\<close>.
  For a name that \<open>find\<close> does not find, the optional call gives \<open>undefined\<close>, which
  \<open>every\<close> takes as false.
\<close>

definition toolIsReadOnly :: "Tool list \<Rightarrow> ToolUseBlock \<Rightarrow> bool" where
  "toolIsReadOnly tools msg =
     (case find (\<lambda>t. name t = toolName msg) tools of
        None \<Rightarrow> False
      | Some t \<Rightarrow> isReadOnly t)"

definition everyToolIsReadOnly :: "Tool list \<Rightarrow> ToolUseBlock list \<Rightarrow> bool" where
  "everyToolIsReadOnly tools toolUseMessages = list_all (toolIsReadOnly tools) toolUseMessages"

text \<open>
  \<open>runToolUse\<close>, one execution: the messages it yields. \<open>u\<close> is the identifier drawn for the
  message built here; \<open>checkPermissionsAndCallTool\<close> stands for the messages the
  validation, permission and call pipeline yields for a tool that exists (up to the
  point where an exception, logged and swallowed here, cuts it short).
\<close>

definition runToolUse ::
  "Tool list \<Rightarrow> bool \<Rightarrow> (Tool \<Rightarrow> ToolUseBlock \<Rightarrow> Message list) \<Rightarrow> UUID \<Rightarrow> ToolUseBlock
     \<Rightarrow> Message list" where
  "runToolUse tools aborted checkPermissionsAndCallTool u toolUse =
     (case find (\<lambda>t. name t = toolName toolUse) tools of
        None \<Rightarrow>
          [User (createUserMessage u
             (Blocks [ToolResult (toolUseId toolUse)
                        (''Error: No such tool available: '' @ toolName toolUse) True])
             None)]
      | Some tool \<Rightarrow>
          if aborted then
            [User (createUserMessage u
               (Blocks [createToolResultStopMessage (toolUseId toolUse)]) None)]
          else checkPermissionsAndCallTool tool toolUse)"

text \<open>
  The two runners. \<open>run\<close> is the execution of one tool use, as \<open>runToolUse\<close> above with
  the batch's context. The serial runner is the \<open>for\<close> loop. The concurrent runner hands
  the executions to the scheduler \<open>all\<close> of \<open>utils/generators\<close>, a parameter here: given
  the executions and the concurrency cap it answers the messages in the order they are
  delivered.
\<close>

definition runToolsSerially ::
  "(ToolUseBlock \<Rightarrow> Message list) \<Rightarrow> ToolUseBlock list \<Rightarrow> Message list" where
  "runToolsSerially run toolUseMessages = concat (map run toolUseMessages)"

definition runToolsConcurrently ::
  "(Message list list \<Rightarrow> nat \<Rightarrow> Message list) \<Rightarrow> (ToolUseBlock \<Rightarrow> Message list)
     \<Rightarrow> ToolUseBlock list \<Rightarrow> Message list" where
  "runToolsConcurrently all run toolUseMessages =
     all (map run toolUseMessages) MAX_TOOL_USE_CONCURRENCY"

text \<open>The \<open>if\<close> of \<open>query\<close> that picks a runner; its value is what the runner yields.\<close>

definition runTools ::
  "(Message list list \<Rightarrow> nat \<Rightarrow> Message list) \<Rightarrow> (ToolUseBlock \<Rightarrow> Message list)
     \<Rightarrow> Tool list \<Rightarrow> ToolUseBlock list \<Rightarrow> Message list" where
  "runTools all run tools toolUseMessages =
     (if everyToolIsReadOnly tools toolUseMessages
      then runToolsConcurrently all run toolUseMessages
      else runToolsSerially run toolUseMessages)"

text \<open>The messages pushed to \<open>toolResults\<close>: those of type \<open>user\<close>.\<close>

fun toolResultsOf :: "Message list \<Rightarrow> UserMessage list" where
  "toolResultsOf [] = []"
| "toolResultsOf (User m # ms) = m # toolResultsOf ms"
| "toolResultsOf (m # ms) = toolResultsOf ms"

text \<open>
  The sort key. The comparator reads \<open>(a.message.content[0] as ToolUseBlock).id\<close>: the
  \<open>id\<close> property of the first content block, which only a tool-use block has
  (\<open>blockId\<close>; \<open>None\<close> is \<open>undefined\<close>). \<open>findIndex\<close> answers the first position whose
  tool-use \<open>id\<close> equals it, or \<open>-1\<close>. Every message in \<open>toolResults\<close> was built by
  \<open>createUserMessage\<close> from a one-block array; content of another shape (a string, an
  empty array) does not occur there and is read as having no \<open>id\<close> either.
\<close>

fun blockId :: "ContentBlock \<Rightarrow> string option" where
  "blockId (ToolUse tu) = Some (toolUseId tu)"
| "blockId b = None"

fun firstBlockId :: "Content \<Rightarrow> string option" where
  "firstBlockId (Blocks (b # bs)) = blockId b"
| "firstBlockId c = None"

fun findIndex :: "('a \<Rightarrow> bool) \<Rightarrow> 'a list \<Rightarrow> int" where
  "findIndex P [] = -1"
| "findIndex P (x # xs) =
     (if P x then 0 else (let i = findIndex P xs in if i < 0 then -1 else i + 1))"

definition toolUseIndex :: "ToolUseBlock list \<Rightarrow> UserMessage \<Rightarrow> int" where
  "toolUseIndex toolUseMessages a =
     findIndex (\<lambda>tu. Some (toolUseId tu) = firstBlockId (userContent a)) toolUseMessages"

text \<open>
  \<open>toolResults.sort((a, b) => aIndex - bIndex)\<close>: a stable sort by that key.
\<close>

definition orderedToolResults :: "ToolUseBlock list \<Rightarrow> UserMessage list \<Rightarrow> UserMessage list" where
  "orderedToolResults toolUseMessages toolResults =
     sort_key (toolUseIndex toolUseMessages) toolResults"

text \<open>
  One turn of \<open>query\<close> after the assistant message has been yielded: nothing more when it
  requests no tool; otherwise the batch is run, and unless cancellation was signalled
  meanwhile the loop recurs on the transcript extended by the assistant message and the
  ordered tool results. The first component is what the runner yielded, the second what
  the turn does next: \<open>Recurse\<close> carries the transcript given to the recursive call, and
  \<open>Interrupted\<close> stands for the synthetic interruption message that ends the generator.
\<close>

datatype TurnOutcome = Finished | Interrupted | Recurse "Message list"

definition queryTurn ::
  "(Message list list \<Rightarrow> nat \<Rightarrow> Message list) \<Rightarrow> (ToolUseBlock \<Rightarrow> Message list)
     \<Rightarrow> Tool list \<Rightarrow> bool \<Rightarrow> Message list \<Rightarrow> AssistantMessage
     \<Rightarrow> Message list \<times> TurnOutcome" where
  "queryTurn all run tools abortedAfterTools messages assistantMessage =
     (let toolUseMessages = toolUsesOf (assistantContent assistantMessage) in
      if toolUseMessages = [] then ([], Finished)
      else
        let yielded = runTools all run tools toolUseMessages;
            toolResults = toolResultsOf yielded
        in
          if abortedAfterTools then (yielded, Interrupted)
          else
            (yielded,
             Recurse (messages @ [Assistant assistantMessage]
                        @ map User (orderedToolResults toolUseMessages toolResults))))"

section \<open>Concrete inputs\<close>

text \<open>
  A shell tool named \<open>Bash\<close> whose \<open>renderToolUseMessage\<close> shows the command as it is, a
  command splitter that knows one compound command, and a few classifier answers.
\<close>

definition exampleBashTool :: Tool where
  "exampleBashTool = \<lparr>name = ''Bash'', isReadOnly = False\<rparr>"

definition exampleSplit :: "string \<Rightarrow> string list" where
  "exampleSplit c =
     (if c = ''npm test && npm run lint'' then [''npm test'', ''npm run lint''] else [c])"

definition exampleRender :: "string \<Rightarrow> string" where
  "exampleRender c = c"

definition exampleExternals :: Externals where
  "exampleExternals =
     \<lparr>BashTool = exampleBashTool, renderToolUseMessage = exampleRender,
      splitCommand = exampleSplit, getCwd = ''/repo'', PRODUCT_NAME = ''Kode''\<rparr>"

definition classifierFailed :: "string \<Rightarrow> CommandSubcommandPrefixResult option" where
  "classifierFailed command = None"

definition npmPrefix :: CommandPrefixResult where
  "npmPrefix = \<lparr>commandPrefix = Some ''npm'', commandInjectionDetected = False\<rparr>"

definition compoundClean :: CommandSubcommandPrefixResult where
  "compoundClean =
     \<lparr>commandPrefix = None, commandInjectionDetected = False,
      subcommandPrefixes = [''npm test'' \<mapsto> npmPrefix, ''npm run lint'' \<mapsto> npmPrefix]\<rparr>"

definition classifierCompoundClean :: "string \<Rightarrow> CommandSubcommandPrefixResult option" where
  "classifierCompoundClean command = Some compoundClean"

definition compoundFlagged :: CommandSubcommandPrefixResult where
  "compoundFlagged =
     \<lparr>commandPrefix = None, commandInjectionDetected = True,
      subcommandPrefixes = [''npm test'' \<mapsto> npmPrefix, ''npm run lint'' \<mapsto> npmPrefix]\<rparr>"

definition classifierCompoundFlagged :: "string \<Rightarrow> CommandSubcommandPrefixResult option" where
  "classifierCompoundFlagged command = Some compoundFlagged"

definition echoFlagged :: CommandSubcommandPrefixResult where
  "echoFlagged =
     \<lparr>commandPrefix = None, commandInjectionDetected = True, subcommandPrefixes = Map.empty\<rparr>"

definition classifierEchoFlagged :: "string \<Rightarrow> CommandSubcommandPrefixResult option" where
  "classifierEchoFlagged command = Some echoFlagged"

text \<open>
  API errors: an overloaded-error response with status 529 whose headers ask for a retry,
  and a plain 503. A model call that fails with the 503 at every attempt.
\<close>

definition overloaded529 :: APIError where
  \<open>overloaded529 =
     \<lparr>errorMessage =
        ''529 {"type":"error","error":{"type":"overloaded_error","message":"Overloaded"}}'',
      status = Some 529, headers = Some [''x-should-retry'' \<mapsto> ''true''],
      isAPIConnectionError = False\<rparr>\<close>

definition serverError503 :: APIError where
  "serverError503 =
     \<lparr>errorMessage = ''503 Service Unavailable'',
      status = Some 503, headers = None, isAPIConnectionError = False\<rparr>"

definition alwaysUnavailable :: "nat \<Rightarrow> Thrown + unit" where
  "alwaysUnavailable attempt = Inl (ThrownAPIError serverError503)"

definition noResponse :: "unit \<Rightarrow> AssistantMessage" where
  "noResponse r = createAssistantMessage ''u0'' ''m0'' ''ok''"

text \<open>
  A tool catalog with two read-only tools and one that writes; tool uses naming them, and
  one naming a tool that is not in the catalog. Every execution of an existing tool
  yields one successful tool-result message. \<open>lastCompletesFirst\<close> is a scheduler run in
  which the executions finish in the reverse of the order they were started in.
\<close>

definition exampleTools :: "Tool list" where
  "exampleTools =
     [\<lparr>name = ''View'', isReadOnly = True\<rparr>, \<lparr>name = ''GrepTool'', isReadOnly = True\<rparr>,
      \<lparr>name = ''Edit'', isReadOnly = False\<rparr>]"

definition viewUse :: ToolUseBlock where
  "viewUse = \<lparr>toolUseId = ''toolu_1'', toolName = ''View'', toolInput = ''a.ts''\<rparr>"

definition grepUse :: ToolUseBlock where
  "grepUse = \<lparr>toolUseId = ''toolu_2'', toolName = ''GrepTool'', toolInput = ''foo''\<rparr>"

definition editUse :: ToolUseBlock where
  "editUse = \<lparr>toolUseId = ''toolu_3'', toolName = ''Edit'', toolInput = ''b.ts''\<rparr>"

definition unknownUse :: ToolUseBlock where
  "unknownUse = \<lparr>toolUseId = ''toolu_4'', toolName = ''Nope'', toolInput = ''x''\<rparr>"

definition exampleResult :: "ToolUseBlock \<Rightarrow> UserMessage" where
  "exampleResult toolUse =
     createUserMessage (''uuid-'' @ toolUseId toolUse)
       (Blocks [ToolResult (toolUseId toolUse) ''ok'' False]) (Some ''ok'')"

definition exampleCall :: "Tool \<Rightarrow> ToolUseBlock \<Rightarrow> Message list" where
  "exampleCall tool toolUse = [User (exampleResult toolUse)]"

definition exampleRun :: "ToolUseBlock \<Rightarrow> Message list" where
  "exampleRun toolUse =
     runToolUse exampleTools False exampleCall (''uuid-'' @ toolUseId toolUse) toolUse"

definition lastCompletesFirst :: "Message list list \<Rightarrow> nat \<Rightarrow> Message list" where
  "lastCompletesFirst generators concurrencyCap = concat (rev generators)"

definition exampleAssistant :: AssistantMessage where
  "exampleAssistant =
     \<lparr>costUSD = 3 / 100, durationMs = 1200,
      assistantContent = [TextBlock ''Looking.'', ToolUse viewUse, ToolUse grepUse],
      messageId = ''msg_1'', model = ''m'', assistantUuid = ''uuid-a'',
      isApiErrorMessage = False\<rparr>"

text \<open>
  An identifier supply, an assistant message with three content blocks, and six message
  objects: a prompt, an assistant turn, a progress message, the result of \<open>toolu_1\<close>,
  another progress message, the result of \<open>toolu_2\<close>. \<open>exampleTranscript\<close> holds each
  object once; \<open>aliasedTranscript\<close> holds the result of \<open>toolu_1\<close> twice, before and after
  the assistant turn.
\<close>

definition exampleUUID :: "nat \<Rightarrow> UUID" where
  "exampleUUID k = ''uuid-n'' @ replicate k (CHR ''i'')"

definition threeBlocks :: AssistantMessage where
  "threeBlocks =
     \<lparr>costUSD = 3 / 100, durationMs = 1200,
      assistantContent = [TextBlock ''Looking.'', ThinkingBlock ''hm'', TextBlock ''Done.''],
      messageId = ''msg_2'', model = ''m'', assistantUuid = ''uuid-b'',
      isApiErrorMessage = False\<rparr>"

definition examplePrompt :: UserMessage where
  "examplePrompt = createUserMessage ''uuid-u'' (Str ''fix it'') None"






section \<open>The permission engine: verified properties\<close>

lemmas permission_example_defs =
  exampleBashTool_def exampleSplit_def exampleRender_def exampleExternals_def
  classifierFailed_def npmPrefix_def compoundClean_def classifierCompoundClean_def
  compoundFlagged_def classifierCompoundFlagged_def echoFlagged_def classifierEchoFlagged_def

lemmas permission_defs =
  bashToolHasPermission_def bashToolCommandHasExactMatchPermission_def
  bashToolCommandHasPermission_def getPermissionKey_def SAFE_COMMANDS_def
  permissionRequestMessage_def subCommandsOf_def subCommandHasPermission_def

text \<open>
  Claim C2 (fail closed), as the code has it. Whenever the classifier is consulted, that
  is, the command has no exact-match approval, and it answers \<open>null\<close>, the check never
  approves: it returns the denial carrying the permission-request message, unless
  cancellation was signalled during the classifier call, in which case it raises the
  cancellation error instead of returning.
\<close>

theorem classifier_failure_never_approves:
  assumes "getCommandSubcommandPrefixFn command = None"
    and "\<not> bashToolCommandHasExactMatchPermission X tool command allowedTools"
  shows "bashToolHasPermission X tool command aborted allowedTools getCommandSubcommandPrefixFn
           = (if aborted then Inl AbortError
              else Inr (Denied (permissionRequestMessage X tool)))"
  using assms by (simp add: bashToolHasPermission_def)

theorem classifier_failure_never_approves_witness:
  "classifierFailed ''rm -rf build'' = None \<and>
   \<not> bashToolCommandHasExactMatchPermission exampleExternals exampleBashTool
        ''rm -rf build'' [''Bash(npm:*)''] \<and>
   bashToolHasPermission exampleExternals exampleBashTool ''rm -rf build'' False
        [''Bash(npm:*)''] classifierFailed
     = Inr (Denied ''Kode requested permissions to use Bash, but you haven't granted it yet.'')"
  using classifier_failure_never_approves
          [of classifierFailed "''rm -rf build''" exampleExternals exampleBashTool
              "[''Bash(npm:*)'']" False]
  by (simp add: permission_example_defs bashToolCommandHasExactMatchPermission_def
        getPermissionKey_def SAFE_COMMANDS_def permissionRequestMessage_def)

text \<open>
  The claim as written promises a returned denial for every command once the classifier
  has failed. With the cancellation signal set, the classifier has failed and the check
  returns nothing: it raises.
\<close>

theorem classifier_failure_abort_counterexample:
  "classifierFailed ''rm -rf build'' = None \<and>
   bashToolHasPermission exampleExternals exampleBashTool ''rm -rf build'' True []
        classifierFailed
     = Inl AbortError"
  by (simp add: permission_example_defs permission_defs)

text \<open>
  Claim C3 (injection override). When the classifier flags the command as a suspected
  injection, the check approves exactly when the full command string has an exact
  match: it is in the safe list, or its exactly-approved key is stored, or the prefix key
  built from the whole command is stored. No prefix-scoped approval of a leading
  sub-command is looked at.
\<close>

theorem injection_requires_exact_match:
  assumes "getCommandSubcommandPrefixFn command = Some r"
    and "commandInjectionDetected r"
  shows "(bashToolHasPermission X tool command aborted allowedTools getCommandSubcommandPrefixFn
            = Inr Granted)
         = (List.member SAFE_COMMANDS command \<or>
            List.member allowedTools (getPermissionKey X tool command None) \<or>
            List.member allowedTools (getPermissionKey X tool command (Some command)))"
  using assms
  by (simp add: bashToolHasPermission_def bashToolCommandHasExactMatchPermission_def Let_def)

theorem injection_requires_exact_match_witness:
  "classifierEchoFlagged ''echo hello; rm -rf /'' = Some echoFlagged \<and>
   commandInjectionDetected echoFlagged \<and>
   List.member [''Bash(echo:*)''] (getPermissionKey exampleExternals exampleBashTool
        ''echo hello; rm -rf /'' (Some ''echo'')) \<and>
   bashToolHasPermission exampleExternals exampleBashTool ''echo hello; rm -rf /'' False
        [''Bash(echo:*)''] classifierEchoFlagged
     \<noteq> Inr Granted"
  using injection_requires_exact_match
          [of classifierEchoFlagged "''echo hello; rm -rf /''" echoFlagged exampleExternals
              exampleBashTool False "[''Bash(echo:*)'']"]
  by (simp add: permission_example_defs bashToolCommandHasExactMatchPermission_def
        getPermissionKey_def SAFE_COMMANDS_def)

text \<open>
  Claim C4 (compound commands), as the code has it. For a command that is not exactly
  approved and whose sub-command list, after the \<open>cd <cwd>\<close> entries are dropped, has two
  or more entries: the check raises the cancellation error when cancellation was
  signalled; otherwise it approves exactly when the classifier returned a result, that
  result's own injection flag is clear, and every sub-command has a mapped prefix result
  that is not injection-flagged and a prefix-or-exact approval. In every other case,
  among them a sub-command with no mapped prefix result, it denies the whole command.
\<close>

theorem compound_command_all_or_nothing:
  assumes "\<not> bashToolCommandHasExactMatchPermission X tool command allowedTools"
    and "2 \<le> length (subCommandsOf X command)"
  shows "bashToolHasPermission X tool command aborted allowedTools getCommandSubcommandPrefixFn =
     (if aborted then Inl AbortError
      else if (\<exists>r. getCommandSubcommandPrefixFn command = Some r \<and>
                 \<not> commandInjectionDetected r \<and>
                 (\<forall>sub \<in> set (subCommandsOf X command).
                    \<exists>p. subcommandPrefixes r sub = Some p \<and> \<not> commandInjectionDetected p \<and>
                        bashToolCommandHasPermission X tool sub (commandPrefix p) allowedTools))
      then Inr Granted
      else Inr (Denied (permissionRequestMessage X tool)))"
  using assms
  by (auto simp add: bashToolHasPermission_def Let_def list_all_iff
        subCommandHasPermission_def split: option.splits)

theorem compound_command_all_or_nothing_witness:
  "\<not> bashToolCommandHasExactMatchPermission exampleExternals exampleBashTool
        ''npm test && npm run lint'' [''Bash(npm:*)''] \<and>
   2 \<le> length (subCommandsOf exampleExternals ''npm test && npm run lint'') \<and>
   bashToolHasPermission exampleExternals exampleBashTool ''npm test && npm run lint'' False
        [''Bash(npm:*)''] classifierCompoundClean
     = Inr Granted"
  using compound_command_all_or_nothing
          [of exampleExternals exampleBashTool "''npm test && npm run lint''"
              "[''Bash(npm:*)'']" False classifierCompoundClean]
  by (simp add: permission_example_defs permission_defs)

text \<open>
  The claim as written makes the sub-commands' approvals sufficient. Here both
  sub-commands have a mapped, unflagged, approved prefix, the command is not exactly
  approved, nothing is cancelled, and the check still denies: the classifier flagged the
  command as a whole, and that flag is tested first.
\<close>

theorem compound_command_top_level_injection_counterexample:
  "\<not> bashToolCommandHasExactMatchPermission exampleExternals exampleBashTool
        ''npm test && npm run lint'' [''Bash(npm:*)''] \<and>
   subCommandsOf exampleExternals ''npm test && npm run lint''
     = [''npm test'', ''npm run lint''] \<and>
   subCommandHasPermission exampleExternals exampleBashTool [''Bash(npm:*)'']
        compoundFlagged ''npm test'' \<and>
   subCommandHasPermission exampleExternals exampleBashTool [''Bash(npm:*)'']
        compoundFlagged ''npm run lint'' \<and>
   bashToolHasPermission exampleExternals exampleBashTool ''npm test && npm run lint'' False
        [''Bash(npm:*)''] classifierCompoundFlagged
     = Inr (Denied ''Kode requested permissions to use Bash, but you haven't granted it yet.'')"
  by (simp add: permission_example_defs permission_defs)

section \<open>The model-call wrapper: verified properties\<close>

lemmas retry_example_defs =
  overloaded529_def serverError503_def alwaysUnavailable_def noResponse_def

lemmas retry_defs =
  shouldRetry_def header_def stringIncludes_def OVERLOADED_ERROR_MARKER_def sublist_code
  withRetry_def MAX_RETRIES_def

text \<open>
  Claim C5 (the wrapper never throws). Whatever the model call under retry ends up
  throwing, be it a terminal error or the error of the last permitted attempt, the wrapper
  returns an assistant message: zero cost and duration, one text block, the API-error
  flag set. The text is \<open>Prompt is too long\<close>, \<open>Credit balance is too low\<close> or the
  invalid-key text when the error's message contains the matching phrase (tested in
  that order), and \<open>API Error: <message>\<close> for every other error; for a thrown value that
  is no error object, and so has no message, it is the bare \<open>API Error\<close>.
\<close>

theorem model_call_failure_becomes_message:
  assumes "withRetry USER_TYPE operation None = Inl e"
  shows "\<exists>t. queryOpenAI USER_TYPE operation fromResponse u mid =
            \<lparr>costUSD = 0, durationMs = 0, assistantContent = [TextBlock t], messageId = mid,
             model = ''<synthetic>'', assistantUuid = u, isApiErrorMessage = True\<rparr> \<and>
          (case e of
             ThrownValue \<Rightarrow> t = ''API Error''
           | ThrownError m \<Rightarrow> t =
               (if stringIncludes m ''prompt is too long'' then ''Prompt is too long''
                else if stringIncludes m ''Your credit balance is too low''
                  then ''Credit balance is too low''
                else if stringIncludes (toLowerCase m) ''x-api-key''
                  then INVALID_API_KEY_ERROR_MESSAGE
                else ''API Error: '' @ m)
           | ThrownAPIError a \<Rightarrow> t =
               (if stringIncludes (errorMessage a) ''prompt is too long''
                  then ''Prompt is too long''
                else if stringIncludes (errorMessage a) ''Your credit balance is too low''
                  then ''Credit balance is too low''
                else if stringIncludes (toLowerCase (errorMessage a)) ''x-api-key''
                  then INVALID_API_KEY_ERROR_MESSAGE
                else ''API Error: '' @ errorMessage a))"
  using assms
  by (cases e)
     (simp_all add: queryOpenAI_def getAssistantMessageFromError_def
        createAssistantAPIErrorMessage_def baseCreateAssistantMessage_def
        API_ERROR_MESSAGE_PREFIX_def PROMPT_TOO_LONG_ERROR_MESSAGE_def
        CREDIT_BALANCE_TOO_LOW_ERROR_MESSAGE_def INVALID_API_KEY_ERROR_MESSAGE_def)

theorem model_call_failure_becomes_message_witness:
  "withRetry None alwaysUnavailable None = Inl (ThrownAPIError serverError503) \<and>
   queryOpenAI None alwaysUnavailable noResponse ''u1'' ''m1'' =
     \<lparr>costUSD = 0, durationMs = 0,
      assistantContent = [TextBlock ''API Error: 503 Service Unavailable''],
      messageId = ''m1'', model = ''<synthetic>'', assistantUuid = ''u1'',
      isApiErrorMessage = True\<rparr>"
  using model_call_failure_becomes_message
          [of None alwaysUnavailable "ThrownAPIError serverError503" noResponse
              "''u1''" "''m1''"]
  by (auto simp add: retry_example_defs retry_defs toLowerCase_def toLowerCaseChar_def)

text \<open>
  Claim C6 (retry policy), as the code has it. An error whose message carries the
  overloaded-error marker is retryable exactly when \<open>USER_TYPE\<close> is \<open>SWE_BENCH\<close>, whatever
  its status and headers. Every other error is retryable exactly when its
  \<open>x-should-retry\<close> header is \<open>true\<close>, or that header is not \<open>false\<close> and the error is a
  connection failure or has status 408, 409, 429 or a status of 500 or above; so a
  \<open>false\<close> header makes it terminal whatever the status.
\<close>

theorem retry_classification:
  "shouldRetry USER_TYPE e =
     (if stringIncludes (errorMessage e) OVERLOADED_ERROR_MARKER
      then USER_TYPE = Some ''SWE_BENCH''
      else header e ''x-should-retry'' = Some ''true'' \<or>
           (header e ''x-should-retry'' \<noteq> Some ''false'' \<and>
            (isAPIConnectionError e \<or>
             (\<exists>s. status e = Some s \<and> (s = 408 \<or> s = 409 \<or> s = 429 \<or> 500 \<le> s)))))"
  by (auto simp add: shouldRetry_def split: option.splits)

theorem retry_classification_witness:
  "\<not> stringIncludes (errorMessage serverError503) OVERLOADED_ERROR_MARKER \<and>
   shouldRetry None serverError503"
  using retry_classification [of None serverError503]
  by (simp add: serverError503_def header_def stringIncludes_def
        OVERLOADED_ERROR_MARKER_def sublist_code)

text \<open>
  The claim as written makes every 5xx status and every \<open>true\<close> retry header retryable.
  This error has status 529 and the header, and is terminal: its message carries the
  overloaded-error marker, which is tested first.
\<close>

theorem retry_overloaded_counterexample:
  "status overloaded529 = Some 529 \<and>
   header overloaded529 ''x-should-retry'' = Some ''true'' \<and>
   shouldRetry None overloaded529 = False"
  by (simp add: overloaded529_def shouldRetry_def header_def stringIncludes_def
        OVERLOADED_ERROR_MARKER_def sublist_code)

section \<open>The query loop: verified properties\<close>

lemmas query_example_defs =
  exampleTools_def viewUse_def grepUse_def editUse_def unknownUse_def
  exampleResult_def exampleCall_def exampleRun_def lastCompletesFirst_def exampleAssistant_def

lemmas query_defs =
  queryTurn_def runTools_def runToolsSerially_def runToolsConcurrently_def
  everyToolIsReadOnly_def toolIsReadOnly_def runToolUse_def orderedToolResults_def
  toolUseIndex_def createUserMessage_def createToolResultStopMessage_def
  MAX_TOOL_USE_CONCURRENCY_def

text \<open>
  The sort of the tool results. A tool-result block has no \<open>id\<close>, so the key of every
  tool-result message is \<open>-1\<close>, and a stable sort on a constant key moves nothing.
\<close>

lemma toolUseIndex_tool_result:
  assumes "isToolResultContent (userContent a)"
  shows "toolUseIndex toolUseMessages a = -1"
proof -
  from assms have "firstBlockId (userContent a) = None"
    by (cases "userContent a" rule: isToolResultContent.cases) auto
  then have "findIndex (\<lambda>tu. Some (toolUseId tu) = firstBlockId (userContent a))
               toolUseMessages = -1"
    by (induction toolUseMessages) auto
  then show ?thesis by (simp add: toolUseIndex_def)
qed

lemma sort_key_constant_on:
  "\<forall>x \<in> set xs. f x = c \<Longrightarrow> sort_key f xs = xs"
proof (induction xs)
  case Nil
  then show ?case by simp
next
  case (Cons x xs)
  then have "sort_key f xs = xs" by simp
  moreover have "insort_key f x xs = x # xs"
    using Cons.prems by (cases xs) auto
  ultimately show ?case by simp
qed

lemma orderedToolResults_is_identity:
  assumes "\<forall>a \<in> set toolResults. isToolResultContent (userContent a)"
  shows "orderedToolResults toolUseMessages toolResults = toolResults"
  unfolding orderedToolResults_def
  by (rule sort_key_constant_on [where c = "-1"]) (simp add: assms toolUseIndex_tool_result)

text \<open>
  Claim C1 (ordering of the resubmitted tool results). The claim asks for the results in
  the order of the requests whatever the completion order. The assistant turn below
  requests \<open>View\<close> (\<open>toolu_1\<close>) and then \<open>GrepTool\<close> (\<open>toolu_2\<close>), both read-only, so the
  batch runs on the concurrent path; the second execution completes first. The
  transcript handed to the recursive call holds the result for \<open>toolu_2\<close> before the
  result for \<open>toolu_1\<close>: the completion order, not the request order.
\<close>

theorem tool_results_keep_completion_order:
  "toolUsesOf (assistantContent exampleAssistant) = [viewUse, grepUse] \<and>
   everyToolIsReadOnly exampleTools [viewUse, grepUse] \<and>
   queryTurn lastCompletesFirst exampleRun exampleTools False [] exampleAssistant =
     ([User (exampleResult grepUse), User (exampleResult viewUse)],
      Recurse [Assistant exampleAssistant,
               User (exampleResult grepUse), User (exampleResult viewUse)])"
  by (simp add: query_example_defs query_defs Let_def)

text \<open>
  Claim C7 (execution strategy). When every requested tool is found in the catalog and
  is read-only, the whole batch is handed to the concurrent scheduler with the cap 10;
  otherwise every tool use of the batch, read-only ones included, is run by the serial
  loop, whose output is the executions' outputs one after the other in request order.
\<close>

theorem tool_batch_dispatch:
  "runTools all run tools toolUseMessages =
     (if (\<forall>msg \<in> set toolUseMessages.
            \<exists>t. find (\<lambda>t. name t = toolName msg) tools = Some t \<and> isReadOnly t)
      then all (map run toolUseMessages) 10
      else concat (map run toolUseMessages))"
  by (auto simp add: runTools_def everyToolIsReadOnly_def toolIsReadOnly_def list_all_iff
        runToolsConcurrently_def runToolsSerially_def MAX_TOOL_USE_CONCURRENCY_def
        split: option.splits)

theorem tool_batch_dispatch_witness:
  "runTools lastCompletesFirst exampleRun exampleTools [viewUse, grepUse]
     = lastCompletesFirst [exampleRun viewUse, exampleRun grepUse] 10 \<and>
   runTools lastCompletesFirst exampleRun exampleTools [viewUse, editUse, grepUse]
     = [User (exampleResult viewUse), User (exampleResult editUse),
        User (exampleResult grepUse)]"
  using tool_batch_dispatch [of lastCompletesFirst exampleRun exampleTools "[viewUse, grepUse]"]
        tool_batch_dispatch
          [of lastCompletesFirst exampleRun exampleTools "[viewUse, editUse, grepUse]"]
  by (simp add: query_example_defs runToolUse_def)

text \<open>
  Claim C10 (unknown tool name). If some tool use of the batch names a tool that the
  catalog does not hold, the read-only test fails for it and the batch is run by the
  serial loop, whatever the other tools are.
\<close>

theorem unknown_tool_forces_serial:
  assumes "msg \<in> set toolUseMessages"
    and "find (\<lambda>t. name t = toolName msg) tools = None"
  shows "\<not> everyToolIsReadOnly tools toolUseMessages \<and>
         runTools all run tools toolUseMessages = runToolsSerially run toolUseMessages"
proof -
  have "\<not> toolIsReadOnly tools msg"
    using assms(2) by (simp add: toolIsReadOnly_def)
  with assms(1) have "\<not> everyToolIsReadOnly tools toolUseMessages"
    by (auto simp add: everyToolIsReadOnly_def list_all_iff)
  then show ?thesis by (simp add: runTools_def)
qed

theorem unknown_tool_forces_serial_witness:
  "unknownUse \<in> set [viewUse, unknownUse, grepUse] \<and>
   find (\<lambda>t. name t = toolName unknownUse) exampleTools = None \<and>
   toolIsReadOnly exampleTools viewUse \<and> toolIsReadOnly exampleTools grepUse \<and>
   runTools lastCompletesFirst exampleRun exampleTools [viewUse, unknownUse, grepUse] =
     [User (exampleResult viewUse),
      User \<lparr>userContent =
               Blocks [ToolResult ''toolu_4'' ''Error: No such tool available: Nope'' True],
            userUuid = ''uuid-toolu_4'', toolUseResult = None\<rparr>,
      User (exampleResult grepUse)]"
  using unknown_tool_forces_serial
          [of unknownUse "[viewUse, unknownUse, grepUse]" exampleTools
              lastCompletesFirst exampleRun]
  by (simp add: query_example_defs query_defs)

section \<open>Message normalization: verified properties\<close>


subsection \<open>Display normalization\<close>

lemma splitAssistantMessage_contents:
  "map assistantContent (assistantMessagesOf (splitAssistantMessage randomUUID k m bs))
     = map (\<lambda>b. [b]) bs"
  by (induction bs arbitrary: k) auto

lemma splitAssistantMessage_costs:
  "map costUSD (assistantMessagesOf (splitAssistantMessage randomUUID k m bs))
     = replicate (length bs) (costUSD m / of_nat (length (assistantContent m)))"
  by (induction bs arbitrary: k) auto

lemma splitAssistantMessage_length:
  "length (splitAssistantMessage randomUUID k m bs) = length bs"
  by (induction bs arbitrary: k) auto

lemma splitAssistantMessage_all_assistant:
  "length (assistantMessagesOf (splitAssistantMessage randomUUID k m bs)) = length bs"
  by (induction bs arbitrary: k) auto

lemma sum_list_replicate_rat: "sum_list (replicate n (c::rat)) = of_nat n * c"
  by (induction n) (auto simp: algebra_simps)

lemma splitAssistantMessage_total:
  assumes "assistantContent m \<noteq> []"
  shows "sum_list (map costUSD (assistantMessagesOf
           (splitAssistantMessage randomUUID k m (assistantContent m)))) = costUSD m"
proof -
  have "sum_list (map costUSD (assistantMessagesOf
           (splitAssistantMessage randomUUID k m (assistantContent m))))
          = of_nat (length (assistantContent m))
              * (costUSD m / of_nat (length (assistantContent m)))"
    by (simp only: splitAssistantMessage_costs sum_list_replicate_rat)
  also have "\<dots> = costUSD m"
    using assms by (cases "assistantContent m") simp_all
  finally show ?thesis .
qed

text \<open>The normalizer is a \<open>flatMap\<close>: it works through a transcript message by message.\<close>

lemma normalizeMessages_append:
  "\<exists>k'. normalizeMessages randomUUID k (xs @ ys)
          = normalizeMessages randomUUID k xs @ normalizeMessages randomUUID k' ys"
proof (induction xs arbitrary: k)
  case Nil
  show ?case by (rule exI [of _ k]) simp
next
  case (Cons x xs)
  show ?case
  proof (cases x)
    case (User u)
    from Cons.IH [of k] obtain k' where
      "normalizeMessages randomUUID k (xs @ ys)
         = normalizeMessages randomUUID k xs @ normalizeMessages randomUUID k' ys" ..
    with User show ?thesis by auto
  next
    case (Assistant a)
    from Cons.IH [of "k + length (assistantContent a)"] obtain k' where
      "normalizeMessages randomUUID (k + length (assistantContent a)) (xs @ ys)
         = normalizeMessages randomUUID (k + length (assistantContent a)) xs
           @ normalizeMessages randomUUID k' ys" ..
    with Assistant show ?thesis by auto
  next
    case (Progress p)
    from Cons.IH [of k] obtain k' where
      "normalizeMessages randomUUID k (xs @ ys)
         = normalizeMessages randomUUID k xs @ normalizeMessages randomUUID k' ys" ..
    with Progress show ?thesis by auto
  qed
qed

lemma assistantMessagesOf_append:
  "assistantMessagesOf (xs @ ys) = assistantMessagesOf xs @ assistantMessagesOf ys"
  by (induction xs rule: assistantMessagesOf.induct) auto

lemma assistantMessagesOf_user_copies:
  "assistantMessagesOf (map (\<lambda>b. User m) bs) = []"
  by (induction bs) auto

text \<open>
  Over a whole transcript: when no assistant message has an empty content array, the
  costs of the display-normalized transcript add up to the costs of the transcript.
\<close>

lemma normalizeMessages_total_cost:
  assumes "\<forall>a \<in> set (assistantMessagesOf ms). assistantContent a \<noteq> []"
  shows "sum_list (map costUSD (assistantMessagesOf (normalizeMessages randomUUID k ms)))
           = sum_list (map costUSD (assistantMessagesOf ms))"
  using assms
proof (induction ms arbitrary: k)
  case Nil
  show ?case by simp
next
  case (Cons x xs)
  show ?case
  proof (cases x)
    case (User u)
    with Cons show ?thesis
      by (cases "userContent u")
         (simp_all add: assistantMessagesOf_append assistantMessagesOf_user_copies)
  next
    case (Assistant a)
    with Cons.prems have ne: "assistantContent a \<noteq> []" by simp
    from Assistant Cons show ?thesis
      by (simp add: assistantMessagesOf_append splitAssistantMessage_total [OF ne])
  next
    case (Progress p)
    with Cons show ?thesis by simp
  qed
qed

text \<open>
  Claim C9 (cost round trip of the display split). Wherever an assistant message with
  \<open>N \<ge> 1\<close> content blocks stands in a transcript, display normalization puts in its place
  \<open>N\<close> messages, all of them assistant messages, the \<open>i\<close>-th holding the \<open>i\<close>-th block alone,
  each with cost \<open>costUSD / N\<close>, between the normalized messages before it and the
  normalized messages after it; the costs of the \<open>N\<close> derived messages add up to
  \<open>costUSD\<close>. Costs are rationals here, and the sum is exact; the source divides
  floating-point numbers, where the sum agrees up to rounding only.
\<close>

theorem display_split_preserves_cost:
  assumes "1 \<le> length (assistantContent a)"
  shows "\<exists>D k'.
           normalizeMessages randomUUID k (pre @ Assistant a # post)
             = normalizeMessages randomUUID k pre @ D @ normalizeMessages randomUUID k' post \<and>
           length D = length (assistantContent a) \<and>
           length (assistantMessagesOf D) = length (assistantContent a) \<and>
           map assistantContent (assistantMessagesOf D)
             = map (\<lambda>b. [b]) (assistantContent a) \<and>
           (\<forall>m \<in> set (assistantMessagesOf D).
              costUSD m = costUSD a / of_nat (length (assistantContent a))) \<and>
           sum_list (map costUSD (assistantMessagesOf D)) = costUSD a"
proof -
  let ?n = "length (assistantContent a)"
  from normalizeMessages_append [of randomUUID k pre "Assistant a # post"]
  obtain k1 where split:
    "normalizeMessages randomUUID k (pre @ Assistant a # post)
       = normalizeMessages randomUUID k pre @ normalizeMessages randomUUID k1 (Assistant a # post)"
    ..
  let ?D = "splitAssistantMessage randomUUID k1 a (assistantContent a)"
  have whole: "normalizeMessages randomUUID k (pre @ Assistant a # post)
       = normalizeMessages randomUUID k pre @ ?D @ normalizeMessages randomUUID (k1 + ?n) post"
    using split by simp
  have costs: "map costUSD (assistantMessagesOf ?D) = replicate ?n (costUSD a / of_nat ?n)"
    by (rule splitAssistantMessage_costs)
  have each: "\<forall>m \<in> set (assistantMessagesOf ?D). costUSD m = costUSD a / of_nat ?n"
  proof
    fix m assume "m \<in> set (assistantMessagesOf ?D)"
    then have "costUSD m \<in> set (map costUSD (assistantMessagesOf ?D))" by simp
    then show "costUSD m = costUSD a / of_nat ?n"
      unfolding costs by simp
  qed
  have ne: "assistantContent a \<noteq> []" using assms by auto
  have total: "sum_list (map costUSD (assistantMessagesOf ?D)) = costUSD a"
    using ne by (rule splitAssistantMessage_total)
  have "normalizeMessages randomUUID k (pre @ Assistant a # post)
          = normalizeMessages randomUUID k pre @ ?D @ normalizeMessages randomUUID (k1 + ?n) post \<and>
        length ?D = ?n \<and>
        length (assistantMessagesOf ?D) = ?n \<and>
        map assistantContent (assistantMessagesOf ?D) = map (\<lambda>b. [b]) (assistantContent a) \<and>
        (\<forall>m \<in> set (assistantMessagesOf ?D). costUSD m = costUSD a / of_nat ?n) \<and>
        sum_list (map costUSD (assistantMessagesOf ?D)) = costUSD a"
    using whole each total
    by (simp only: splitAssistantMessage_length splitAssistantMessage_all_assistant
          splitAssistantMessage_contents simp_thms)
  then show ?thesis by blast
qed

theorem display_split_preserves_cost_witness:
  "1 \<le> length (assistantContent threeBlocks) \<and>
   map assistantContent (assistantMessagesOf
       (normalizeMessages exampleUUID 0
          ([User examplePrompt] @ Assistant threeBlocks # [Assistant exampleAssistant])))
     = [[TextBlock ''Looking.''], [ThinkingBlock ''hm''], [TextBlock ''Done.''],
        [TextBlock ''Looking.''], [ToolUse viewUse], [ToolUse grepUse]] \<and>
   map costUSD (assistantMessagesOf
       (normalizeMessages exampleUUID 0
          ([User examplePrompt] @ Assistant threeBlocks # [Assistant exampleAssistant])))
     = [1 / 100, 1 / 100, 1 / 100, 1 / 100, 1 / 100, 1 / 100]"
  using display_split_preserves_cost
          [of threeBlocks exampleUUID 0 "[User examplePrompt]" "[Assistant exampleAssistant]"]
  by (simp add: threeBlocks_def examplePrompt_def exampleAssistant_def createUserMessage_def)

subsection \<open>Wire normalization\<close>



































end
